theory Spec2Isabelle
  imports Main "HOL-Library.Multiset" "HOL-Library.Product_Lexorder"
begin

section \<open>Data model (models.py, schemas.py)\<close>

text \<open>
  The enumerations of models.py become datatypes and every mapped class becomes a record
  with one field per column that a handler of main.py reads or writes. Field names carry
  the table's initial (\<open>u_\<close>, \<open>p_\<close>, \<open>i_\<close>, \<open>r_\<close>) because several tables share the
  column names \<open>id\<close>, \<open>name\<close> and \<open>language\<close>. A nullable column is an \<open>option\<close>.
  The columns \<open>status\<close>, \<open>is_stat\<close>, \<open>requested_at\<close> and \<open>availability_status\<close> have a
  column default and are non-optional in the response schemas, so they are plain values.
  The audit columns \<open>created_at\<close> and \<open>updated_at\<close> are filled in by the ORM, are never
  read by a handler, and are left out. A \<open>DateTime\<close> is a point on a discrete clock.
\<close>

datatype UserType = STAFF | INTERPRETER | ADMIN

datatype RequestStatus = PENDING | ACCEPTED | COMPLETED | CANCELLED

datatype InterpreterAvailability = AVAILABLE | UNAVAILABLE | BUSY

datatype DeliveryMethod = ONSITE | TELEPHONE | TELEHEALTH

type_synonym datetime = nat

record LoginInformation =
  u_id :: string
  u_username :: string
  u_user_type :: UserType

record PatientData =
  p_id :: string
  p_fhir_id :: string
  p_name :: string
  p_location :: "string option"
  p_birthdate :: "string option"
  p_gender :: "string option"
  p_address :: "string option"
  p_phone_number :: "string option"
  p_email :: "string option"
  p_language :: string

record InterpreterData =
  i_id :: string
  i_login_id :: string
  i_name :: string
  i_phone_number :: "string option"
  i_email :: "string option"
  i_language :: string
  i_gender :: "string option"
  i_gender_preference :: "string option"
  i_availability_status :: InterpreterAvailability

record InterpreterRequest =
  r_id :: string
  r_requested_by :: string
  r_patient_id :: string
  r_interpreter_id :: "string option"
  r_location_method :: string
  r_delivery_method :: DeliveryMethod
  r_language :: string
  r_status :: RequestStatus
  r_patient_type :: "string option"
  r_is_stat :: bool
  r_duration_minutes :: "string option"
  r_request_notes :: "string option"
  r_encounter_notes :: "string option"
  r_requested_at :: datetime
  r_accepted_at :: "datetime option"
  r_completed_at :: "datetime option"

text \<open>The request bodies of schemas.py.\<close>

record RequestCreate =
  rc_patient_id :: string
  rc_location_method :: string
  rc_delivery_method :: DeliveryMethod
  rc_language :: string
  rc_patient_type :: "string option"
  rc_is_stat :: bool
  rc_duration_minutes :: "string option"
  rc_request_notes :: "string option"

record RequestUpdate =
  ru_status :: "RequestStatus option"
  ru_encounter_notes :: "string option"

record InterpreterUpdate =
  iu_availability_status :: "InterpreterAvailability option"
  iu_phone_number :: "string option"
  iu_email :: "string option"

text \<open>
  The database session: one list of rows per table, in storage order. Each handler takes
  the store and returns its answer together with the store it leaves behind; a handler that
  raises before \<open>db.commit()\<close> leaves the store as it found it.
\<close>

record db =
  patient_data :: "PatientData list"
  interpreter_data :: "InterpreterData list"
  interpreter_requests :: "InterpreterRequest list"

text \<open>
  What a handler can raise: FastAPI's \<open>HTTPException(status_code, detail)\<close>, the
  \<open>IntegrityError\<close> of an insert that breaks a primary-key or unique constraint, and the
  \<open>ValidationError\<close> of a response model built with a required field set to \<open>None\<close>.
\<close>

datatype error = HTTPException nat string | IntegrityError | ValidationError

definition HTTP_400_BAD_REQUEST :: nat where
  "HTTP_400_BAD_REQUEST = 400"

definition HTTP_404_NOT_FOUND :: nat where
  "HTTP_404_NOT_FOUND = 404"

section \<open>Queries and updates of the session\<close>

text \<open>\<open>db.query(InterpreterData).filter(InterpreterData.login_id == uid).first()\<close>\<close>

definition interpreter_by_login :: "db \<Rightarrow> string \<Rightarrow> InterpreterData option" where
  "interpreter_by_login d uid = find (\<lambda>i. i_login_id i = uid) (interpreter_data d)"

text \<open>\<open>db.query(InterpreterRequest).filter(InterpreterRequest.id == rid).first()\<close>\<close>

definition request_by_id :: "db \<Rightarrow> string \<Rightarrow> InterpreterRequest option" where
  "request_by_id d rid = find (\<lambda>r. r_id r = rid) (interpreter_requests d)"

text \<open>\<open>db.query(PatientData).filter(PatientData.id == pid).first()\<close>\<close>

definition patient_by_id :: "db \<Rightarrow> string \<Rightarrow> PatientData option" where
  "patient_by_id d pid = find (\<lambda>p. p_id p = pid) (patient_data d)"

text \<open>
  Flushing a modified object writes its changed columns to the row with the object's
  primary key: \<open>UPDATE ... SET ... WHERE id = :pk\<close>.
\<close>

definition update_request ::
  "string \<Rightarrow> (InterpreterRequest \<Rightarrow> InterpreterRequest) \<Rightarrow> db \<Rightarrow> db" where
  "update_request pk f d =
     d\<lparr>interpreter_requests := map (\<lambda>r. if r_id r = pk then f r else r) (interpreter_requests d)\<rparr>"

definition update_interpreter ::
  "string \<Rightarrow> (InterpreterData \<Rightarrow> InterpreterData) \<Rightarrow> db \<Rightarrow> db" where
  "update_interpreter pk f d =
     d\<lparr>interpreter_data := map (\<lambda>i. if i_id i = pk then f i else i) (interpreter_data d)\<rparr>"

section \<open>Accept (main.py, accept\_request)\<close>

text \<open>
  \<open>now\<close> is the value \<open>datetime.utcnow()\<close> returns inside the handler. The two
  assignments to the request and the one to the interpreter are flushed by the single
  \<open>db.commit()\<close>.
\<close>

definition accept_changes :: "InterpreterData \<Rightarrow> datetime \<Rightarrow> InterpreterRequest \<Rightarrow> InterpreterRequest" where
  "accept_changes interpreter now request =
     request\<lparr>r_interpreter_id := Some (i_id interpreter),
             r_status := ACCEPTED,
             r_accepted_at := Some now\<rparr>"

definition set_availability :: "InterpreterAvailability \<Rightarrow> InterpreterData \<Rightarrow> InterpreterData" where
  "set_availability a interpreter = interpreter\<lparr>i_availability_status := a\<rparr>"

definition accept_request ::
  "string \<Rightarrow> db \<Rightarrow> LoginInformation \<Rightarrow> datetime \<Rightarrow> (error + InterpreterRequest) \<times> db" where
  "accept_request request_id d current_user now =
     (case interpreter_by_login d (u_id current_user) of
        None \<Rightarrow> (Inl (HTTPException HTTP_404_NOT_FOUND ''Interpreter profile not found''), d)
      | Some interpreter \<Rightarrow>
          if i_availability_status interpreter \<noteq> AVAILABLE
          then (Inl (HTTPException HTTP_400_BAD_REQUEST
                       ''You must be available to accept requests''), d)
          else (case request_by_id d request_id of
             None \<Rightarrow> (Inl (HTTPException HTTP_404_NOT_FOUND ''Request not found''), d)
           | Some request \<Rightarrow>
               if r_status request \<noteq> PENDING
               then (Inl (HTTPException HTTP_400_BAD_REQUEST ''Request is not pending''), d)
               else if r_language request \<noteq> i_language interpreter
               then (Inl (HTTPException HTTP_400_BAD_REQUEST
                            ''Request language does not match your language''), d)
               else (Inr (accept_changes interpreter now request),
                     update_interpreter (i_id interpreter) (set_availability BUSY)
                       (update_request (r_id request) (accept_changes interpreter now) d))))"

text \<open>The spec's names for the four failures of Accept, as the handler raises them.\<close>

definition NotAvailable :: error where
  "NotAvailable = HTTPException 400 ''You must be available to accept requests''"

definition RequestNotFound :: error where
  "RequestNotFound = HTTPException 404 ''Request not found''"

definition RequestNotPending :: error where
  "RequestNotPending = HTTPException 400 ''Request is not pending''"

definition LanguageMismatch :: error where
  "LanguageMismatch = HTTPException 400 ''Request language does not match your language''"

section \<open>Create Request (main.py, create\_request)\<close>

text \<open>
  \<open>InterpreterRequest(requested_by=current_user.id, **request.dict())\<close> sets the columns
  of the request body; the columns it does not name take their column default at insert:
  \<open>id\<close> is \<open>generate_uuid()\<close> (the parameter \<open>new_id\<close>), \<open>status\<close> is PENDING,
  \<open>requested_at\<close> is \<open>datetime.utcnow()\<close> (the parameter \<open>now\<close>), and the nullable
  columns are NULL. The insert is refused when the primary key is already in the table.
\<close>

definition new_InterpreterRequest ::
  "RequestCreate \<Rightarrow> LoginInformation \<Rightarrow> string \<Rightarrow> datetime \<Rightarrow> InterpreterRequest" where
  "new_InterpreterRequest request current_user new_id now =
     \<lparr>r_id = new_id,
      r_requested_by = u_id current_user,
      r_patient_id = rc_patient_id request,
      r_interpreter_id = None,
      r_location_method = rc_location_method request,
      r_delivery_method = rc_delivery_method request,
      r_language = rc_language request,
      r_status = PENDING,
      r_patient_type = rc_patient_type request,
      r_is_stat = rc_is_stat request,
      r_duration_minutes = rc_duration_minutes request,
      r_request_notes = rc_request_notes request,
      r_encounter_notes = None,
      r_requested_at = now,
      r_accepted_at = None,
      r_completed_at = None\<rparr>"

definition insert_request :: "InterpreterRequest \<Rightarrow> db \<Rightarrow> (error + InterpreterRequest) \<times> db" where
  "insert_request new_request d =
     (if r_id new_request \<in> set (map r_id (interpreter_requests d))
      then (Inl IntegrityError, d)
      else (Inr new_request,
            d\<lparr>interpreter_requests := interpreter_requests d @ [new_request]\<rparr>))"

definition create_request ::
  "RequestCreate \<Rightarrow> db \<Rightarrow> LoginInformation \<Rightarrow> string \<Rightarrow> datetime
   \<Rightarrow> (error + InterpreterRequest) \<times> db" where
  "create_request request d current_user new_id now =
     (case patient_by_id d (rc_patient_id request) of
        None \<Rightarrow> (Inl (HTTPException HTTP_404_NOT_FOUND ''Patient not found''), d)
      | Some patient \<Rightarrow>
          insert_request (new_InterpreterRequest request current_user new_id now) d)"

section \<open>Complete (main.py, complete\_request)\<close>

text \<open>
  \<open>if updates.encounter_notes:\<close> is Python truthiness: the notes are stored when they are
  neither \<open>None\<close> nor the empty string.
\<close>

definition complete_changes :: "RequestUpdate \<Rightarrow> datetime \<Rightarrow> InterpreterRequest \<Rightarrow> InterpreterRequest" where
  "complete_changes updates now request =
     (let request1 = request\<lparr>r_status := COMPLETED, r_completed_at := Some now\<rparr>
      in case ru_encounter_notes updates of
           None \<Rightarrow> request1
         | Some notes \<Rightarrow>
             if notes \<noteq> [] then request1\<lparr>r_encounter_notes := Some notes\<rparr> else request1)"

text \<open>
  \<open>db.query(InterpreterRequest).filter(InterpreterRequest.id == rid,
  InterpreterRequest.interpreter_id == iid).first()\<close>; a NULL \<open>interpreter_id\<close> matches no
  interpreter.
\<close>

definition assigned_request :: "db \<Rightarrow> string \<Rightarrow> string \<Rightarrow> InterpreterRequest option" where
  "assigned_request d rid iid =
     find (\<lambda>r. r_id r = rid \<and> r_interpreter_id r = Some iid) (interpreter_requests d)"

definition complete_request ::
  "string \<Rightarrow> RequestUpdate \<Rightarrow> db \<Rightarrow> LoginInformation \<Rightarrow> datetime
   \<Rightarrow> (error + InterpreterRequest) \<times> db" where
  "complete_request request_id updates d current_user now =
     (case interpreter_by_login d (u_id current_user) of
        None \<Rightarrow> (Inl (HTTPException HTTP_404_NOT_FOUND ''Interpreter profile not found''), d)
      | Some interpreter \<Rightarrow>
          (case assigned_request d request_id (i_id interpreter) of
             None \<Rightarrow> (Inl (HTTPException HTTP_404_NOT_FOUND
                             ''Request not found or not assigned to you''), d)
           | Some request \<Rightarrow>
               if r_status request \<noteq> ACCEPTED
               then (Inl (HTTPException HTTP_400_BAD_REQUEST
                            ''Request is not in accepted status''), d)
               else (Inr (complete_changes updates now request),
                     update_interpreter (i_id interpreter) (set_availability AVAILABLE)
                       (update_request (r_id request) (complete_changes updates now) d))))"

text \<open>
  The spec's names for the failure of Create Request and the two failures of Complete, as
  the handlers raise them.
\<close>

definition PatientNotFound :: error where
  "PatientNotFound = HTTPException 404 ''Patient not found''"

definition NotYourRequest :: error where
  "NotYourRequest = HTTPException 404 ''Request not found or not assigned to you''"

definition RequestNotAccepted :: error where
  "RequestNotAccepted = HTTPException 400 ''Request is not in accepted status''"

section \<open>Self-service profile update (main.py, update\_my\_interpreter\_profile)\<close>

text \<open>
  \<open>if updates.availability_status:\<close> holds for every member of the enumeration (its
  values are non-empty strings); the other two fields are tested with \<open>is not None\<close>.
\<close>

definition profile_changes :: "InterpreterUpdate \<Rightarrow> InterpreterData \<Rightarrow> InterpreterData" where
  "profile_changes updates interpreter =
     (let i1 = (case iu_availability_status updates of
                  None \<Rightarrow> interpreter
                | Some a \<Rightarrow> interpreter\<lparr>i_availability_status := a\<rparr>);
          i2 = (case iu_phone_number updates of
                  None \<Rightarrow> i1
                | Some ph \<Rightarrow> i1\<lparr>i_phone_number := Some ph\<rparr>)
      in case iu_email updates of
           None \<Rightarrow> i2
         | Some e \<Rightarrow> i2\<lparr>i_email := Some e\<rparr>)"

definition update_my_interpreter_profile ::
  "InterpreterUpdate \<Rightarrow> db \<Rightarrow> LoginInformation \<Rightarrow> (error + InterpreterData) \<times> db" where
  "update_my_interpreter_profile updates d current_user =
     (case interpreter_by_login d (u_id current_user) of
        None \<Rightarrow> (Inl (HTTPException HTTP_404_NOT_FOUND ''Interpreter profile not found''), d)
      | Some interpreter \<Rightarrow>
          (Inr (profile_changes updates interpreter),
           update_interpreter (i_id interpreter) (profile_changes updates) d))"

section \<open>Pending queue (main.py, get\_pending\_requests\_for\_interpreter)\<close>

text \<open>
  The query
  \<open>filter(language == L, status == PENDING).order_by(is_stat.desc(), requested_at)\<close>.
  A row with \<open>is_stat\<close> set sorts first (\<open>False < True\<close>, so the key is the negation);
  within one urgency the older \<open>requested_at\<close> sorts first. SQL leaves the order of rows
  with equal keys open; the model keeps them in storage order.
\<close>

definition queue_key :: "InterpreterRequest \<Rightarrow> bool \<times> datetime" where
  "queue_key r = (\<not> r_is_stat r, r_requested_at r)"

definition pending_requests_query :: "db \<Rightarrow> string \<Rightarrow> InterpreterRequest list" where
  "pending_requests_query d language =
     sort_key queue_key
       (filter (\<lambda>r. r_language r = language \<and> r_status r = PENDING) (interpreter_requests d))"

text \<open>
  The response rows: \<open>RequestWithDetails(**req.__dict__, patient=patient, interpreter=None)\<close>.
  The field \<open>patient\<close> is required, so a request whose patient row is missing makes the
  constructor raise.
\<close>

record RequestWithDetails =
  rd_request :: InterpreterRequest
  rd_patient :: PatientData
  rd_interpreter :: "InterpreterData option"

fun pending_details ::
  "db \<Rightarrow> InterpreterRequest list \<Rightarrow> RequestWithDetails list \<Rightarrow> error + RequestWithDetails list" where
  "pending_details d [] result = Inr result"
| "pending_details d (req # requests) result =
     (case patient_by_id d (r_patient_id req) of
        None \<Rightarrow> Inl ValidationError
      | Some patient \<Rightarrow>
          pending_details d requests
            (result @ [\<lparr>rd_request = req, rd_patient = patient, rd_interpreter = None\<rparr>]))"

definition get_pending_requests_for_interpreter ::
  "db \<Rightarrow> LoginInformation \<Rightarrow> error + RequestWithDetails list" where
  "get_pending_requests_for_interpreter d current_user =
     (case interpreter_by_login d (u_id current_user) of
        None \<Rightarrow> Inl (HTTPException HTTP_404_NOT_FOUND ''Interpreter profile not found'')
      | Some interpreter \<Rightarrow>
          pending_details d (pending_requests_query d (i_language interpreter)) [])"

text \<open>
  The order the spec words: STAT before non-STAT, and within equal urgency the earlier
  \<open>requested_at\<close> first.
\<close>

definition queue_order :: "InterpreterRequest \<Rightarrow> InterpreterRequest \<Rightarrow> bool" where
  "queue_order a b =
     ((r_is_stat a \<and> \<not> r_is_stat b) \<or>
      (r_is_stat a = r_is_stat b \<and> r_requested_at a \<le> r_requested_at b))"

section \<open>Local patient sync (main.py, sync\_patient\_from\_fhir)\<close>

text \<open>
  \<open>fhir_client.get_patient\<close> is an HTTP call to the directory server, so its answer is a
  parameter of the handler: \<open>get_patient fhir_id\<close> is \<open>None\<close> when the server has no such
  patient and otherwise the columns \<open>parse_patient_resource\<close> reads from the resource.
  The resource's own \<open>id\<close> may be absent. The insert is refused when the primary key or
  the unique, non-null column \<open>fhir_id\<close> would be violated.
\<close>

record ParsedPatient =
  pp_fhir_id :: "string option"
  pp_name :: string
  pp_gender :: "string option"
  pp_birthdate :: "string option"
  pp_phone_number :: "string option"
  pp_email :: "string option"
  pp_address :: "string option"
  pp_language :: string

definition patient_by_fhir_id :: "db \<Rightarrow> string \<Rightarrow> PatientData option" where
  "patient_by_fhir_id d fid = find (\<lambda>p. p_fhir_id p = fid) (patient_data d)"

definition insert_patient ::
  "ParsedPatient \<Rightarrow> string \<Rightarrow> db \<Rightarrow> (error + PatientData) \<times> db" where
  "insert_patient patient_fields new_id d =
     (case pp_fhir_id patient_fields of
        None \<Rightarrow> (Inl IntegrityError, d)
      | Some fid \<Rightarrow>
          if new_id \<in> set (map p_id (patient_data d)) \<or> fid \<in> set (map p_fhir_id (patient_data d))
          then (Inl IntegrityError, d)
          else (let new_patient =
                      \<lparr>p_id = new_id,
                       p_fhir_id = fid,
                       p_name = pp_name patient_fields,
                       p_location = None,
                       p_birthdate = pp_birthdate patient_fields,
                       p_gender = pp_gender patient_fields,
                       p_address = pp_address patient_fields,
                       p_phone_number = pp_phone_number patient_fields,
                       p_email = pp_email patient_fields,
                       p_language = pp_language patient_fields\<rparr>
                in (Inr new_patient, d\<lparr>patient_data := patient_data d @ [new_patient]\<rparr>)))"

definition sync_patient_from_fhir ::
  "string \<Rightarrow> db \<Rightarrow> (string \<Rightarrow> ParsedPatient option) \<Rightarrow> string \<Rightarrow> (error + PatientData) \<times> db" where
  "sync_patient_from_fhir fhir_id d get_patient new_id =
     (case patient_by_fhir_id d fhir_id of
        Some existing \<Rightarrow> (Inr existing, d)
      | None \<Rightarrow>
          (case get_patient fhir_id of
             None \<Rightarrow> (Inl (HTTPException HTTP_404_NOT_FOUND ''Patient not found in FHIR server''), d)
           | Some patient_fields \<Rightarrow> insert_patient patient_fields new_id d))"

section \<open>Histories of operations\<close>

text \<open>
  A call of one of the handlers that write the request and interpreter tables, with the
  arguments the handler receives and the identifier and clock values it draws.
\<close>

datatype operation =
    CreateRequest RequestCreate LoginInformation string datetime
  | Accept string LoginInformation datetime
  | Complete string RequestUpdate LoginInformation datetime
  | UpdateProfile InterpreterUpdate LoginInformation

fun step :: "operation \<Rightarrow> db \<Rightarrow> db" where
  "step (CreateRequest request current_user new_id now) d =
     snd (create_request request d current_user new_id now)"
| "step (Accept request_id current_user now) d =
     snd (accept_request request_id d current_user now)"
| "step (Complete request_id updates current_user now) d =
     snd (complete_request request_id updates d current_user now)"
| "step (UpdateProfile updates current_user) d =
     snd (update_my_interpreter_profile updates d current_user)"

fun run :: "operation list \<Rightarrow> db \<Rightarrow> db" where
  "run [] d = d"
| "run (operation # operations) d = run operations (step operation d)"

text \<open>
  The assignment invariant of one request, and of a store: the primary key of the request
  table is unique and every row satisfies the invariant.
\<close>

definition assigned_iff_engaged :: "InterpreterRequest \<Rightarrow> bool" where
  "assigned_iff_engaged r =
     ((r_interpreter_id r \<noteq> None) = (r_status r = ACCEPTED \<or> r_status r = COMPLETED))"

definition requests_consistent :: "db \<Rightarrow> bool" where
  "requests_consistent d =
     (distinct (map r_id (interpreter_requests d)) \<and>
      list_all assigned_iff_engaged (interpreter_requests d))"

section \<open>Sample rows\<close>

definition staff1 :: LoginInformation where
  "staff1 = \<lparr>u_id = ''u0'', u_username = ''staff1'', u_user_type = STAFF\<rparr>"

definition arabic1_login :: LoginInformation where
  "arabic1_login = \<lparr>u_id = ''u1'', u_username = ''interpreter_arabic1'', u_user_type = INTERPRETER\<rparr>"

definition mandarin1_login :: LoginInformation where
  "mandarin1_login = \<lparr>u_id = ''u2'', u_username = ''interpreter_mandarin1'', u_user_type = INTERPRETER\<rparr>"

definition arabic1 :: InterpreterData where
  "arabic1 = \<lparr>i_id = ''i1'', i_login_id = ''u1'', i_name = ''Ahmed Hassan'',
              i_phone_number = None, i_email = None, i_language = ''Arabic'',
              i_gender = Some ''Other'', i_gender_preference = None,
              i_availability_status = AVAILABLE\<rparr>"

definition mandarin1 :: InterpreterData where
  "mandarin1 = \<lparr>i_id = ''i2'', i_login_id = ''u2'', i_name = ''Li Wei'',
                i_phone_number = None, i_email = None, i_language = ''Mandarin'',
                i_gender = Some ''Other'', i_gender_preference = None,
                i_availability_status = AVAILABLE\<rparr>"

definition patient2 :: PatientData where
  "patient2 = \<lparr>p_id = ''p2'', p_fhir_id = ''patient-002'', p_name = ''Mohammed Ali'',
               p_location = Some ''Emergency Department'', p_birthdate = Some ''1978-07-22'',
               p_gender = Some ''male'', p_address = None, p_phone_number = None,
               p_email = None, p_language = ''Arabic''\<rparr>"

definition arabic_body :: "bool \<Rightarrow> RequestCreate" where
  "arabic_body stat =
     \<lparr>rc_patient_id = ''p2'', rc_location_method = ''Phone Call'',
      rc_delivery_method = TELEPHONE, rc_language = ''Arabic'', rc_patient_type = None,
      rc_is_stat = stat, rc_duration_minutes = None, rc_request_notes = None\<rparr>"

text \<open>
  The three requests of the spec's queue example, with the time of day in minutes:
  R1 (not STAT, 10:00), R2 (STAT, 10:05), R3 (not STAT, 09:50).
\<close>

definition R1 :: InterpreterRequest where
  "R1 = new_InterpreterRequest (arabic_body False) staff1 ''r1'' 600"

definition R2 :: InterpreterRequest where
  "R2 = new_InterpreterRequest (arabic_body True) staff1 ''r2'' 605"

definition R3 :: InterpreterRequest where
  "R3 = new_InterpreterRequest (arabic_body False) staff1 ''r3'' 590"

definition sample_db :: db where
  "sample_db = \<lparr>patient_data = [patient2],
                interpreter_data = [arabic1, mandarin1],
                interpreter_requests = [R1, R2, R3]\<rparr>"

definition empty_queue_db :: db where
  "empty_queue_db = \<lparr>patient_data = [patient2],
                     interpreter_data = [arabic1, mandarin1],
                     interpreter_requests = []\<rparr>"

definition no_updates :: RequestUpdate where
  "no_updates = \<lparr>ru_status = None, ru_encounter_notes = None\<rparr>"

definition go_unavailable :: InterpreterUpdate where
  "go_unavailable =
     \<lparr>iu_availability_status = Some UNAVAILABLE, iu_phone_number = None, iu_email = None\<rparr>"

text \<open>
  The store after interpreter_arabic1 has accepted R2 and then set the profile to
  UNAVAILABLE while the request is still ACCEPTED.
\<close>

definition engaged_db :: db where
  "engaged_db =
     snd (update_my_interpreter_profile go_unavailable
            (snd (accept_request ''r2'' sample_db arabic1_login 700)) arabic1_login)"

text \<open>The store after interpreter_arabic1 has then completed R2.\<close>

definition completed_db :: db where
  "completed_db = snd (complete_request ''r2'' no_updates engaged_db arabic1_login 800)"

text \<open>One request from creation to completion.\<close>

definition lifecycle :: "operation list" where
  "lifecycle =
     [CreateRequest (arabic_body True) staff1 ''r2'' 605,
      Accept ''r2'' arabic1_login 700,
      Complete ''r2'' no_updates arabic1_login 800]"

definition parsed_patient3 :: ParsedPatient where
  "parsed_patient3 =
     \<lparr>pp_fhir_id = Some ''patient-003'', pp_name = ''Tran Thi Lan'',
      pp_gender = Some ''female'', pp_birthdate = Some ''1990-11-08'',
      pp_phone_number = None, pp_email = None, pp_address = None,
      pp_language = ''Vietnamese''\<rparr>"

text \<open>The row the sync of ``patient-003'' stores under the new key ``p3''.\<close>

definition patient3 :: PatientData where
  "patient3 = \<lparr>p_id = ''p3'', p_fhir_id = ''patient-003'', p_name = ''Tran Thi Lan'',
               p_location = None, p_birthdate = Some ''1990-11-08'',
               p_gender = Some ''female'', p_address = None, p_phone_number = None,
               p_email = None, p_language = ''Vietnamese''\<rparr>"

definition directory :: "string \<Rightarrow> ParsedPatient option" where
  "directory fid = (if fid = ''patient-003'' then Some parsed_patient3 else None)"

section \<open>Lemmas about the session\<close>

lemma find_map_update:
  assumes "\<And>x. P (g x) = P x"
  shows "find P (map g xs) = map_option g (find P xs)"
  using assms by (induction xs) auto

lemma find_append_new:
  "\<forall>x \<in> set xs. \<not> P x \<Longrightarrow> P y \<Longrightarrow> find P (xs @ [y]) = Some y"
  by (induction xs) auto

lemma find_conj_first:
  "find P xs = Some x \<Longrightarrow> Q x \<Longrightarrow> find (\<lambda>y. P y \<and> Q y) xs = Some x"
  by (induction xs) (auto split: if_splits)

lemma request_by_id_update_request:
  assumes "\<And>r. r_id (f r) = r_id r"
  shows "request_by_id (update_request pk f d) rid =
         map_option (\<lambda>r. if r_id r = pk then f r else r) (request_by_id d rid)"
  unfolding request_by_id_def update_request_def
  using assms by (simp add: find_map_update)

lemma interpreter_by_login_update_interpreter:
  assumes "\<And>i. i_login_id (f i) = i_login_id i"
  shows "interpreter_by_login (update_interpreter pk f d) uid =
         map_option (\<lambda>i. if i_id i = pk then f i else i) (interpreter_by_login d uid)"
  unfolding interpreter_by_login_def update_interpreter_def
  using assms by (simp add: find_map_update)

lemma request_by_id_update_interpreter [simp]:
  "request_by_id (update_interpreter pk f d) rid = request_by_id d rid"
  by (simp add: request_by_id_def update_interpreter_def)

lemma interpreter_by_login_update_request [simp]:
  "interpreter_by_login (update_request pk f d) uid = interpreter_by_login d uid"
  by (simp add: interpreter_by_login_def update_request_def)

lemma assigned_request_update_interpreter [simp]:
  "assigned_request (update_interpreter pk f d) rid iid = assigned_request d rid iid"
  by (simp add: assigned_request_def update_interpreter_def)

lemma requests_update_interpreter [simp]:
  "interpreter_requests (update_interpreter pk f d) = interpreter_requests d"
  by (simp add: update_interpreter_def)

lemma request_by_id_assigned:
  "request_by_id d rid = Some r \<Longrightarrow> r_interpreter_id r = Some iid \<Longrightarrow>
     assigned_request d rid iid = Some r"
  unfolding request_by_id_def assigned_request_def by (rule find_conj_first)

lemma assigned_request_Some:
  "assigned_request d rid iid = Some r \<Longrightarrow>
     r \<in> set (interpreter_requests d) \<and> r_id r = rid \<and> r_interpreter_id r = Some iid"
  unfolding assigned_request_def by (auto simp: find_Some_iff)

lemma assigned_request_None:
  "assigned_request d rid iid = None \<longleftrightarrow>
     \<not> (\<exists>r \<in> set (interpreter_requests d). r_id r = rid \<and> r_interpreter_id r = Some iid)"
  unfolding assigned_request_def by (auto simp: find_None_iff)

lemma interpreter_after_set_availability:
  assumes "interpreter_by_login d uid = Some interpreter"
  shows "interpreter_by_login
           (update_interpreter (i_id interpreter) (set_availability a) (update_request pk f d)) uid
         = Some (set_availability a interpreter)"
  using assms
  by (simp add: interpreter_by_login_update_interpreter set_availability_def)

section \<open>Lemmas about the handlers\<close>

lemma complete_request_success:
  assumes "interpreter_by_login d (u_id current_user) = Some interpreter"
    and "assigned_request d request_id (i_id interpreter) = Some request"
    and "r_status request = ACCEPTED"
  shows "complete_request request_id updates d current_user now =
           (Inr (complete_changes updates now request),
            update_interpreter (i_id interpreter) (set_availability AVAILABLE)
              (update_request (r_id request) (complete_changes updates now) d))"
  using assms by (simp add: complete_request_def)

lemma accept_request_sets_busy:
  assumes "accept_request request_id d current_user now = (Inr accepted, d')"
  shows "\<exists>interpreter. interpreter_by_login d (u_id current_user) = Some interpreter \<and>
           interpreter_by_login d' (u_id current_user) = Some (set_availability BUSY interpreter)"
  using assms
  by (auto simp: accept_request_def interpreter_after_set_availability
      split: option.splits if_splits)

lemma complete_request_sets_available:
  assumes "complete_request request_id updates d current_user now = (Inr completed, d')"
  shows "\<exists>interpreter. interpreter_by_login d (u_id current_user) = Some interpreter \<and>
           interpreter_by_login d' (u_id current_user) =
             Some (set_availability AVAILABLE interpreter)"
  using assms
  by (auto simp: complete_request_def interpreter_after_set_availability
      split: option.splits if_splits)

lemma accept_changes_id [simp]:
  "r_id (accept_changes interpreter now r) = r_id r"
  by (simp add: accept_changes_def)

lemma complete_changes_fields [simp]:
  "r_id (complete_changes updates now r) = r_id r"
  "r_interpreter_id (complete_changes updates now r) = r_interpreter_id r"
  "r_status (complete_changes updates now r) = COMPLETED"
  by (simp_all add: complete_changes_def Let_def split: option.splits)

lemma assigned_iff_engaged_accept [simp]:
  "assigned_iff_engaged (accept_changes interpreter now r)"
  by (simp add: assigned_iff_engaged_def accept_changes_def)

text \<open>
  Two calls of Accept for the same request, one after the other: once the first has
  succeeded, a second caller with an AVAILABLE profile is told that the request is not
  pending, and the store stays as the first call left it.
\<close>

lemma accept_request_after_accept:
  assumes "accept_request request_id d first_user now = (Inr accepted, d')"
    and "interpreter_by_login d' (u_id second_user) = Some interpreter"
    and "i_availability_status interpreter = AVAILABLE"
  shows "accept_request request_id d' second_user later = (Inl RequestNotPending, d')"
proof -
  from assms(1) have "\<exists>request. request_by_id d' request_id = Some request \<and>
      r_status request = ACCEPTED"
    by (auto simp: accept_request_def request_by_id_update_request accept_changes_def
        split: option.splits if_splits)
  with assms(2,3) show ?thesis
    by (auto simp: accept_request_def RequestNotPending_def HTTP_400_BAD_REQUEST_def)
qed

section \<open>The assignment invariant along a history\<close>

lemma requests_consistent_update_interpreter [simp]:
  "requests_consistent (update_interpreter pk f d) = requests_consistent d"
  by (simp add: requests_consistent_def)

lemma map_id_update:
  assumes "\<And>r. r_id (f r) = r_id r"
  shows "map (r_id \<circ> (\<lambda>r. if r_id r = pk then f r else r)) rs = map r_id rs"
  using assms by (induction rs) auto

lemma requests_consistent_update_request:
  assumes "requests_consistent d"
    and "\<And>r. r_id (f r) = r_id r"
    and "\<And>r. r \<in> set (interpreter_requests d) \<Longrightarrow> r_id r = pk \<Longrightarrow> assigned_iff_engaged (f r)"
  shows "requests_consistent (update_request pk f d)"
  using assms
  by (auto simp: requests_consistent_def update_request_def map_id_update list_all_iff)

lemma distinct_same_id:
  assumes "distinct (map r_id rs)" and "a \<in> set rs" and "b \<in> set rs" and "r_id a = r_id b"
  shows "a = b"
  using assms by (meson distinct_map inj_onD)

lemma requests_consistent_accept:
  assumes "requests_consistent d"
  shows "requests_consistent (snd (accept_request request_id d current_user now))"
  using assms
  by (auto simp: accept_request_def requests_consistent_update_request
      split: option.splits)

lemma requests_consistent_complete:
  assumes "requests_consistent d"
  shows "requests_consistent (snd (complete_request request_id updates d current_user now))"
proof (cases "complete_request request_id updates d current_user now")
  case (Pair res d')
  show ?thesis
  proof (cases res)
    case (Inl e)
    with Pair have "d' = d"
      by (auto simp: complete_request_def split: option.splits if_splits)
    with Pair assms show ?thesis by simp
  next
    case (Inr completed)
    with Pair obtain interpreter :: InterpreterData and request where
      a: "assigned_request d request_id (i_id interpreter) = Some request"
      and d': "d' = update_interpreter (i_id interpreter) (set_availability AVAILABLE)
                  (update_request (r_id request) (complete_changes updates now) d)"
      by (auto simp: complete_request_def split: option.splits if_splits)
    from a have mem: "request \<in> set (interpreter_requests d)"
      and asg: "r_interpreter_id request = Some (i_id interpreter)"
      by (auto dest: assigned_request_Some)
    have "requests_consistent (update_request (r_id request) (complete_changes updates now) d)"
    proof (rule requests_consistent_update_request [OF assms])
      fix r show "r_id (complete_changes updates now r) = r_id r" by simp
    next
      fix r assume "r \<in> set (interpreter_requests d)" and "r_id r = r_id request"
      with mem assms have "r = request"
        by (auto simp: requests_consistent_def intro: distinct_same_id)
      with asg show "assigned_iff_engaged (complete_changes updates now r)"
        by (simp add: assigned_iff_engaged_def)
    qed
    with Pair d' show ?thesis by simp
  qed
qed

lemma requests_consistent_create:
  assumes "requests_consistent d"
  shows "requests_consistent (snd (create_request request d current_user new_id now))"
  using assms
  by (auto simp: create_request_def insert_request_def requests_consistent_def
      new_InterpreterRequest_def assigned_iff_engaged_def split: option.splits)

lemma requests_consistent_update_profile:
  assumes "requests_consistent d"
  shows "requests_consistent (snd (update_my_interpreter_profile updates d current_user))"
  using assms
  by (auto simp: update_my_interpreter_profile_def split: option.splits)

lemma requests_consistent_step:
  "requests_consistent d \<Longrightarrow> requests_consistent (step operation d)"
  by (cases operation)
    (simp_all add: requests_consistent_accept requests_consistent_complete
      requests_consistent_create requests_consistent_update_profile)

lemma requests_consistent_run:
  "requests_consistent d \<Longrightarrow> requests_consistent (run operations d)"
  by (induction operations arbitrary: d) (simp_all add: requests_consistent_step)

section \<open>The pending queue\<close>

lemma queue_order_key: "queue_order a b = (queue_key a \<le> queue_key b)"
  by (auto simp: queue_order_def queue_key_def)

lemma sorted_pending_requests_query:
  "sorted_wrt queue_order (pending_requests_query d language)"
proof -
  have "sorted (map queue_key (pending_requests_query d language))"
    by (simp add: pending_requests_query_def)
  then show ?thesis
    by (simp add: sorted_map queue_order_key [abs_def])
qed

lemma mset_pending_requests_query:
  "mset (pending_requests_query d language) =
     filter_mset (\<lambda>r. r_language r = language \<and> r_status r = PENDING)
       (mset (interpreter_requests d))"
  by (simp add: pending_requests_query_def)

lemma pending_details_total:
  assumes "\<forall>req \<in> set requests. patient_by_id d (r_patient_id req) \<noteq> None"
  shows "\<exists>rows. pending_details d requests result = Inr (result @ rows) \<and>
           map rd_request rows = requests \<and>
           list_all (\<lambda>row. patient_by_id d (r_patient_id (rd_request row)) = Some (rd_patient row) \<and>
                       rd_interpreter row = None) rows"
  using assms
proof (induction requests arbitrary: result)
  case Nil
  then show ?case by simp
next
  case (Cons req requests)
  then obtain patient where p: "patient_by_id d (r_patient_id req) = Some patient"
    by auto
  let ?row = "\<lparr>rd_request = req, rd_patient = patient, rd_interpreter = None\<rparr>"
  from Cons.prems have rest: "\<forall>req \<in> set requests. patient_by_id d (r_patient_id req) \<noteq> None"
    by simp
  from Cons.IH [OF rest, of "result @ [?row]"] obtain rows where
    "pending_details d requests (result @ [?row]) = Inr ((result @ [?row]) @ rows) \<and>
     map rd_request rows = requests \<and>
     list_all (\<lambda>row. patient_by_id d (r_patient_id (rd_request row)) = Some (rd_patient row) \<and>
                       rd_interpreter row = None) rows" ..
  with p show ?case
    by (intro exI [of _ "?row # rows"]) simp
qed

lemma pending_handler_rows:
  assumes "interpreter_by_login d (u_id current_user) = Some interpreter"
    and "\<forall>r \<in> set (interpreter_requests d). patient_by_id d (r_patient_id r) \<noteq> None"
  shows "\<exists>rows. get_pending_requests_for_interpreter d current_user = Inr rows \<and>
           map rd_request rows = pending_requests_query d (i_language interpreter)"
proof -
  have "\<forall>req \<in> set (pending_requests_query d (i_language interpreter)).
          patient_by_id d (r_patient_id req) \<noteq> None"
    using assms(2) by (simp add: pending_requests_query_def)
  from pending_details_total [OF this, of "[]"] assms(1) show ?thesis
    by (auto simp: get_pending_requests_for_interpreter_def)
qed

lemma mset_single_list: "mset xs = {#x#} \<Longrightarrow> xs = [x]"
  by simp

lemma queue_example:
  assumes m: "mset (interpreter_requests d) = {#r1, r2, r3#}"
    and l: "r_language r1 = ''Arabic''" "r_language r2 = ''Arabic''" "r_language r3 = ''Arabic''"
    and p: "r_status r1 = PENDING" "r_status r2 = PENDING" "r_status r3 = PENDING"
    and s: "\<not> r_is_stat r1" "r_is_stat r2" "\<not> r_is_stat r3"
    and t: "r_requested_at r1 = 600" "r_requested_at r2 = 605" "r_requested_at r3 = 590"
  shows "pending_requests_query d ''Arabic'' = [r2, r3, r1]"
  unfolding pending_requests_query_def
proof (rule properties_for_sort_key)
  let ?xs = "filter (\<lambda>r. r_language r = ''Arabic'' \<and> r_status r = PENDING) (interpreter_requests d)"
  show ms: "mset [r2, r3, r1] = mset ?xs"
    using m l p by simp
  show "sorted (map queue_key [r2, r3, r1])"
    using s t by (simp add: queue_key_def)
  fix k assume k: "k \<in> set [r2, r3, r1]"
  have "mset (filter (\<lambda>x. queue_key k = queue_key x) ?xs) =
      filter_mset (\<lambda>x. queue_key k = queue_key x) (mset [r2, r3, r1])"
    by (simp only: ms mset_filter)
  also have "\<dots> = {#k#}"
    using k s t by (auto simp: queue_key_def)
  finally have "mset (filter (\<lambda>x. queue_key k = queue_key x) ?xs) = {#k#}" .
  then have "filter (\<lambda>x. queue_key k = queue_key x) ?xs = [k]"
    by (rule mset_single_list)
  moreover have "filter (\<lambda>x. queue_key k = queue_key x) [r2, r3, r1] = [k]"
    using k s t by (auto simp: queue_key_def)
  ultimately show "filter (\<lambda>x. queue_key k = queue_key x) [r2, r3, r1] =
      filter (\<lambda>x. queue_key k = queue_key x) ?xs"
    by simp
qed

section \<open>The sample rows, evaluated\<close>

lemmas sample_defs =
  completed_db_def engaged_db_def sample_db_def empty_queue_db_def
  go_unavailable_def no_updates_def
  arabic1_login_def mandarin1_login_def staff1_def arabic1_def mandarin1_def patient2_def
  R1_def R2_def R3_def new_InterpreterRequest_def arabic_body_def

lemmas handler_defs =
  accept_request_def complete_request_def create_request_def insert_request_def
  update_my_interpreter_profile_def profile_changes_def
  accept_changes_def complete_changes_def set_availability_def
  interpreter_by_login_def request_by_id_def assigned_request_def patient_by_id_def
  update_interpreter_def update_request_def
  HTTP_400_BAD_REQUEST_def HTTP_404_NOT_FOUND_def

lemma engaged_db_eval:
  "interpreter_by_login engaged_db (u_id arabic1_login) =
     Some (arabic1\<lparr>i_availability_status := UNAVAILABLE\<rparr>)"
  "assigned_request engaged_db ''r2'' ''i1'' = Some (accept_changes arabic1 700 R2)"
  by (simp_all add: engaged_db_def sample_db_def accept_request_def
        update_my_interpreter_profile_def profile_changes_def go_unavailable_def
        interpreter_by_login_def request_by_id_def assigned_request_def
        update_interpreter_def update_request_def set_availability_def accept_changes_def
        arabic1_login_def arabic1_def mandarin1_def R1_def R2_def R3_def
        new_InterpreterRequest_def arabic_body_def staff1_def)

section \<open>Claims\<close>

text \<open>
  C1. For a caller with an interpreter profile, Accept succeeds exactly when the profile is
  AVAILABLE, the request exists, it is PENDING and its language is the interpreter's. On
  success the stored request is ACCEPTED, assigned to the accepting interpreter and stamped
  with the time of the call, and the interpreter is BUSY. The checks are made in the order
  availability, existence, status, language, and the first one that fails decides the
  error: NotAvailable, RequestNotFound, RequestNotPending, LanguageMismatch; a failed call
  leaves the store as it was.
\<close>

theorem accept_request_contract:
  assumes "interpreter_by_login d (u_id current_user) = Some interpreter"
  shows
    "((\<exists>accepted d'. accept_request request_id d current_user now = (Inr accepted, d')) \<longleftrightarrow>
        (i_availability_status interpreter = AVAILABLE \<and>
         (\<exists>request. request_by_id d request_id = Some request \<and>
            r_status request = PENDING \<and>
            r_language request = i_language interpreter)))
     \<and> (\<forall>accepted d'. accept_request request_id d current_user now = (Inr accepted, d') \<longrightarrow>
          r_status accepted = ACCEPTED \<and>
          r_interpreter_id accepted = Some (i_id interpreter) \<and>
          r_accepted_at accepted = Some now \<and>
          request_by_id d' request_id = Some accepted \<and>
          (\<exists>interpreter'. interpreter_by_login d' (u_id current_user) = Some interpreter' \<and>
             i_availability_status interpreter' = BUSY))
     \<and> (i_availability_status interpreter \<noteq> AVAILABLE \<longrightarrow>
          accept_request request_id d current_user now = (Inl NotAvailable, d))
     \<and> (i_availability_status interpreter = AVAILABLE \<and> request_by_id d request_id = None \<longrightarrow>
          accept_request request_id d current_user now = (Inl RequestNotFound, d))
     \<and> (\<forall>request. i_availability_status interpreter = AVAILABLE \<and>
            request_by_id d request_id = Some request \<and> r_status request \<noteq> PENDING \<longrightarrow>
          accept_request request_id d current_user now = (Inl RequestNotPending, d))
     \<and> (\<forall>request. i_availability_status interpreter = AVAILABLE \<and>
            request_by_id d request_id = Some request \<and> r_status request = PENDING \<and>
            r_language request \<noteq> i_language interpreter \<longrightarrow>
          accept_request request_id d current_user now = (Inl LanguageMismatch, d))"
proof -
  note defs = accept_request_def NotAvailable_def RequestNotFound_def RequestNotPending_def
    LanguageMismatch_def HTTP_400_BAD_REQUEST_def HTTP_404_NOT_FOUND_def
  have iff: "(\<exists>accepted d'. accept_request request_id d current_user now = (Inr accepted, d')) \<longleftrightarrow>
        (i_availability_status interpreter = AVAILABLE \<and>
         (\<exists>request. request_by_id d request_id = Some request \<and>
            r_status request = PENDING \<and>
            r_language request = i_language interpreter))"
    using assms by (auto simp: defs split: option.splits)
  have post: "r_status accepted = ACCEPTED \<and>
          r_interpreter_id accepted = Some (i_id interpreter) \<and>
          r_accepted_at accepted = Some now \<and>
          request_by_id d' request_id = Some accepted \<and>
          (\<exists>interpreter'. interpreter_by_login d' (u_id current_user) = Some interpreter' \<and>
             i_availability_status interpreter' = BUSY)"
    if ok: "accept_request request_id d current_user now = (Inr accepted, d')" for accepted d'
  proof -
    from ok assms obtain request where
      req: "request_by_id d request_id = Some request"
      and acc: "accepted = accept_changes interpreter now request"
      and d': "d' = update_interpreter (i_id interpreter) (set_availability BUSY)
                 (update_request (r_id request) (accept_changes interpreter now) d)"
      by (auto simp: defs split: option.splits if_splits)
    have "request_by_id d' request_id = Some accepted"
      using req acc d'
      by (simp add: request_by_id_update_request accept_changes_def)
    moreover have "interpreter_by_login d' (u_id current_user) = Some (set_availability BUSY interpreter)"
      using assms d'
      by (simp add: interpreter_by_login_update_interpreter set_availability_def)
    ultimately show ?thesis
      using acc by (simp add: accept_changes_def set_availability_def)
  qed
  have e1: "i_availability_status interpreter \<noteq> AVAILABLE \<longrightarrow>
          accept_request request_id d current_user now = (Inl NotAvailable, d)"
    using assms by (simp add: defs)
  have e2: "i_availability_status interpreter = AVAILABLE \<and> request_by_id d request_id = None \<longrightarrow>
          accept_request request_id d current_user now = (Inl RequestNotFound, d)"
    using assms by (simp add: defs)
  have e3: "\<forall>request. i_availability_status interpreter = AVAILABLE \<and>
            request_by_id d request_id = Some request \<and> r_status request \<noteq> PENDING \<longrightarrow>
          accept_request request_id d current_user now = (Inl RequestNotPending, d)"
    using assms by (simp add: defs)
  have e4: "\<forall>request. i_availability_status interpreter = AVAILABLE \<and>
            request_by_id d request_id = Some request \<and> r_status request = PENDING \<and>
            r_language request \<noteq> i_language interpreter \<longrightarrow>
          accept_request request_id d current_user now = (Inl LanguageMismatch, d)"
    using assms by (simp add: defs)
  from iff post e1 e2 e3 e4 show ?thesis by blast
qed

theorem accept_request_contract_witness:
  "interpreter_by_login sample_db (u_id arabic1_login) = Some arabic1 \<and>
   i_availability_status arabic1 = AVAILABLE \<and>
   request_by_id sample_db ''r2'' = Some R2 \<and>
   r_status R2 = PENDING \<and>
   r_language R2 = i_language arabic1 \<and>
   (\<exists>accepted d'. accept_request ''r2'' sample_db arabic1_login 700 = (Inr accepted, d'))"
proof -
  have h: "interpreter_by_login sample_db (u_id arabic1_login) = Some arabic1"
    by (simp add: interpreter_by_login_def sample_db_def arabic1_login_def arabic1_def)
  have r: "request_by_id sample_db ''r2'' = Some R2"
    by (simp add: request_by_id_def sample_db_def R1_def R2_def new_InterpreterRequest_def)
  have p: "i_availability_status arabic1 = AVAILABLE \<and> r_status R2 = PENDING \<and>
           r_language R2 = i_language arabic1"
    by (simp add: arabic1_def R2_def new_InterpreterRequest_def arabic_body_def)
  from accept_request_contract [OF h, of "''r2''" 700] h r p show ?thesis by blast
qed

text \<open>
  C3. The invariant ``interpreter\_id is set iff the status is ACCEPTED or COMPLETED''
  (equivalently: it is NULL iff the status is PENDING or CANCELLED) is kept by every
  operation and therefore by every history of Create Request, Accept, Complete and profile
  updates, from any store that satisfies it with a unique primary key, in particular from
  an empty request table.
\<close>

theorem assignment_invariant_reachable:
  assumes "requests_consistent d"
  shows "requests_consistent (step operation d)
       \<and> requests_consistent (run operations d)
       \<and> (\<forall>r \<in> set (interpreter_requests (run operations d)).
            ((r_interpreter_id r \<noteq> None) = (r_status r = ACCEPTED \<or> r_status r = COMPLETED)) \<and>
            ((r_interpreter_id r = None) = (r_status r = PENDING \<or> r_status r = CANCELLED)))
       \<and> (interpreter_requests d0 = [] \<longrightarrow>
            (\<forall>r \<in> set (interpreter_requests (run operations d0)).
               (r_interpreter_id r \<noteq> None) = (r_status r = ACCEPTED \<or> r_status r = COMPLETED)))"
proof -
  have inv: "(r_interpreter_id r \<noteq> None) = (r_status r = ACCEPTED \<or> r_status r = COMPLETED) \<and>
             (r_interpreter_id r = None) = (r_status r = PENDING \<or> r_status r = CANCELLED)"
    if c: "requests_consistent (run operations e)"
      and r: "r \<in> set (interpreter_requests (run operations e))" for e r
  proof -
    from c r have "assigned_iff_engaged r"
      by (simp add: requests_consistent_def list_all_iff)
    then have 1: "(r_interpreter_id r \<noteq> None) = (r_status r = ACCEPTED \<or> r_status r = COMPLETED)"
      by (simp add: assigned_iff_engaged_def)
    then have "(r_interpreter_id r = None) = (r_status r = PENDING \<or> r_status r = CANCELLED)"
      by (cases "r_status r") auto
    with 1 show ?thesis by simp
  qed
  have s: "requests_consistent (step operation d)"
    using assms by (rule requests_consistent_step)
  have c: "requests_consistent (run operations d)"
    using assms by (rule requests_consistent_run)
  have e: "requests_consistent (run operations d0)" if "interpreter_requests d0 = []"
    using that by (intro requests_consistent_run) (simp add: requests_consistent_def)
  from s c inv [OF c] inv [OF e] show ?thesis by blast
qed

theorem assignment_invariant_reachable_witness:
  "requests_consistent empty_queue_db \<and>
   interpreter_requests empty_queue_db = [] \<and>
   interpreter_requests (run lifecycle empty_queue_db) =
     [complete_changes no_updates 800 (accept_changes arabic1 700 R2)] \<and>
   r_interpreter_id (complete_changes no_updates 800 (accept_changes arabic1 700 R2)) = Some ''i1'' \<and>
   r_status (complete_changes no_updates 800 (accept_changes arabic1 700 R2)) = COMPLETED \<and>
   requests_consistent (run lifecycle empty_queue_db)"
proof -
  have c: "requests_consistent empty_queue_db"
    by (simp add: requests_consistent_def empty_queue_db_def)
  have n: "interpreter_requests empty_queue_db = []"
    by (simp add: empty_queue_db_def)
  have m: "interpreter_requests (run lifecycle empty_queue_db) =
     [complete_changes no_updates 800 (accept_changes arabic1 700 R2)]"
    by (simp add: lifecycle_def sample_defs handler_defs)
  have i: "r_interpreter_id (complete_changes no_updates 800 (accept_changes arabic1 700 R2)) = Some ''i1''"
    by (simp add: arabic1_def accept_changes_def)
  from assignment_invariant_reachable [OF c, of _ lifecycle empty_queue_db] m i
  have "r_status (complete_changes no_updates 800 (accept_changes arabic1 700 R2)) = COMPLETED \<and>
        requests_consistent (run lifecycle empty_queue_db)"
    by simp
  with c n m i show ?thesis by simp
qed

text \<open>
  C4. After a successful Accept the accepting interpreter is BUSY. After a successful
  Complete the completing interpreter is AVAILABLE; Complete does not read the availability
  state, so it succeeds on an assigned ACCEPTED request and resets the state whatever its
  value was, UNAVAILABLE included.
\<close>

theorem availability_after_accept_and_complete:
  "(accept_request request_id d current_user now = (Inr accepted, d') \<longrightarrow>
      (\<exists>interpreter'. interpreter_by_login d' (u_id current_user) = Some interpreter' \<and>
         i_availability_status interpreter' = BUSY))
   \<and> (complete_request request_id updates d current_user now = (Inr completed, d'') \<longrightarrow>
      (\<exists>interpreter'. interpreter_by_login d'' (u_id current_user) = Some interpreter' \<and>
         i_availability_status interpreter' = AVAILABLE))
   \<and> (interpreter_by_login d (u_id current_user) = Some interpreter \<and>
       assigned_request d request_id (i_id interpreter) = Some request \<and>
       r_status request = ACCEPTED \<longrightarrow>
      (\<exists>completed d''. complete_request request_id updates d current_user now = (Inr completed, d'') \<and>
         interpreter_by_login d'' (u_id current_user) =
           Some (interpreter\<lparr>i_availability_status := AVAILABLE\<rparr>)))"
proof (intro conjI impI)
  assume "accept_request request_id d current_user now = (Inr accepted, d')"
  from accept_request_sets_busy [OF this]
  show "\<exists>interpreter'. interpreter_by_login d' (u_id current_user) = Some interpreter' \<and>
         i_availability_status interpreter' = BUSY"
    by (auto simp: set_availability_def)
next
  assume "complete_request request_id updates d current_user now = (Inr completed, d'')"
  from complete_request_sets_available [OF this]
  show "\<exists>interpreter'. interpreter_by_login d'' (u_id current_user) = Some interpreter' \<and>
         i_availability_status interpreter' = AVAILABLE"
    by (auto simp: set_availability_def)
next
  assume a: "interpreter_by_login d (u_id current_user) = Some interpreter \<and>
       assigned_request d request_id (i_id interpreter) = Some request \<and>
       r_status request = ACCEPTED"
  then have "complete_request request_id updates d current_user now =
           (Inr (complete_changes updates now request),
            update_interpreter (i_id interpreter) (set_availability AVAILABLE)
              (update_request (r_id request) (complete_changes updates now) d))"
    by (simp add: complete_request_success)
  moreover have "interpreter_by_login
      (update_interpreter (i_id interpreter) (set_availability AVAILABLE)
              (update_request (r_id request) (complete_changes updates now) d)) (u_id current_user)
      = Some (interpreter\<lparr>i_availability_status := AVAILABLE\<rparr>)"
    using a by (simp add: interpreter_after_set_availability set_availability_def)
  ultimately show "\<exists>completed d''. complete_request request_id updates d current_user now = (Inr completed, d'') \<and>
         interpreter_by_login d'' (u_id current_user) =
           Some (interpreter\<lparr>i_availability_status := AVAILABLE\<rparr>)"
    by simp
qed

theorem availability_after_accept_and_complete_witness:
  "interpreter_by_login engaged_db (u_id arabic1_login) =
     Some (arabic1\<lparr>i_availability_status := UNAVAILABLE\<rparr>) \<and>
   assigned_request engaged_db ''r2'' (i_id (arabic1\<lparr>i_availability_status := UNAVAILABLE\<rparr>)) =
     Some (accept_changes arabic1 700 R2) \<and>
   r_status (accept_changes arabic1 700 R2) = ACCEPTED \<and>
   (\<exists>completed d''. complete_request ''r2'' no_updates engaged_db arabic1_login 800 =
        (Inr completed, d'') \<and>
      interpreter_by_login d'' (u_id arabic1_login) = Some arabic1)"
proof -
  let ?i = "arabic1\<lparr>i_availability_status := UNAVAILABLE\<rparr>"
  have h: "interpreter_by_login engaged_db (u_id arabic1_login) = Some ?i"
    by (rule engaged_db_eval)
  have a: "assigned_request engaged_db ''r2'' (i_id ?i) = Some (accept_changes arabic1 700 R2)"
    using engaged_db_eval(2) by (simp add: arabic1_def)
  have s: "r_status (accept_changes arabic1 700 R2) = ACCEPTED"
    by (simp add: accept_changes_def)
  have e: "?i\<lparr>i_availability_status := AVAILABLE\<rparr> = arabic1"
    by (simp add: arabic1_def)
  from availability_after_accept_and_complete
    [of "''r2''" engaged_db arabic1_login 800 _ _ no_updates _ _ ?i "accept_changes arabic1 700 R2"]
    h a s e
  show ?thesis by simp
qed

text \<open>
  C5. For a caller with an interpreter profile: when no request with the given identity is
  assigned to the caller, Complete fails with NotYourRequest; when the request is assigned
  to the caller but is not ACCEPTED, it fails with RequestNotAccepted. In both cases the
  store after the call is the store before it.
\<close>

theorem complete_request_failures:
  assumes "interpreter_by_login d (u_id current_user) = Some interpreter"
  shows
    "(\<not> (\<exists>r \<in> set (interpreter_requests d).
            r_id r = request_id \<and> r_interpreter_id r = Some (i_id interpreter)) \<longrightarrow>
        complete_request request_id updates d current_user now = (Inl NotYourRequest, d))
     \<and> (\<forall>request. request_by_id d request_id = Some request \<and>
            r_interpreter_id request = Some (i_id interpreter) \<and>
            r_status request \<noteq> ACCEPTED \<longrightarrow>
        complete_request request_id updates d current_user now = (Inl RequestNotAccepted, d))"
proof (intro conjI impI allI)
  assume "\<not> (\<exists>r \<in> set (interpreter_requests d).
            r_id r = request_id \<and> r_interpreter_id r = Some (i_id interpreter))"
  then have "assigned_request d request_id (i_id interpreter) = None"
    by (simp add: assigned_request_None)
  with assms show "complete_request request_id updates d current_user now = (Inl NotYourRequest, d)"
    by (simp add: complete_request_def NotYourRequest_def HTTP_404_NOT_FOUND_def)
next
  fix request
  assume a: "request_by_id d request_id = Some request \<and>
            r_interpreter_id request = Some (i_id interpreter) \<and>
            r_status request \<noteq> ACCEPTED"
  then have "assigned_request d request_id (i_id interpreter) = Some request"
    by (simp add: request_by_id_assigned)
  with assms a show "complete_request request_id updates d current_user now =
      (Inl RequestNotAccepted, d)"
    by (simp add: complete_request_def RequestNotAccepted_def HTTP_400_BAD_REQUEST_def)
qed

theorem complete_request_failures_witness:
  "interpreter_by_login engaged_db (u_id mandarin1_login) = Some mandarin1 \<and>
   complete_request ''r2'' no_updates engaged_db mandarin1_login 800 =
     (Inl NotYourRequest, engaged_db) \<and>
   interpreter_by_login completed_db (u_id arabic1_login) = Some arabic1 \<and>
   r_interpreter_id (complete_changes no_updates 800 (accept_changes arabic1 700 R2)) =
     Some (i_id arabic1) \<and>
   r_status (complete_changes no_updates 800 (accept_changes arabic1 700 R2)) = COMPLETED \<and>
   complete_request ''r2'' no_updates completed_db arabic1_login 900 =
     (Inl RequestNotAccepted, completed_db)"
proof -
  have h1: "interpreter_by_login engaged_db (u_id mandarin1_login) = Some mandarin1"
    by (simp add: sample_defs handler_defs)
  have n1: "\<not> (\<exists>r \<in> set (interpreter_requests engaged_db).
            r_id r = ''r2'' \<and> r_interpreter_id r = Some (i_id mandarin1))"
    by (simp add: sample_defs handler_defs)
  have h2: "interpreter_by_login completed_db (u_id arabic1_login) = Some arabic1"
    by (simp add: sample_defs handler_defs)
  have r2: "request_by_id completed_db ''r2'' =
      Some (complete_changes no_updates 800 (accept_changes arabic1 700 R2))"
    by (simp add: sample_defs handler_defs)
  have f2: "r_interpreter_id (complete_changes no_updates 800 (accept_changes arabic1 700 R2)) =
     Some (i_id arabic1)"
    "r_status (complete_changes no_updates 800 (accept_changes arabic1 700 R2)) = COMPLETED"
    by (simp_all add: sample_defs handler_defs)
  from complete_request_failures [OF h1, of "''r2''" no_updates 800] n1
  have c1: "complete_request ''r2'' no_updates engaged_db mandarin1_login 800 =
     (Inl NotYourRequest, engaged_db)"
    by blast
  from complete_request_failures [OF h2, of "''r2''" no_updates 900] r2 f2
  have c2: "complete_request ''r2'' no_updates completed_db arabic1_login 900 =
     (Inl RequestNotAccepted, completed_db)"
    by simp
  from h1 c1 h2 f2 c2 show ?thesis by simp
qed

text \<open>
  C6. An AVAILABLE interpreter who accepts an existing PENDING request in another language
  gets LanguageMismatch, and the store after the call is the store before it: no field of
  the request and no availability state has changed.
\<close>

theorem accept_language_mismatch_no_change:
  assumes "interpreter_by_login d (u_id current_user) = Some interpreter"
    and "i_availability_status interpreter = AVAILABLE"
    and "request_by_id d request_id = Some request"
    and "r_status request = PENDING"
    and "r_language request \<noteq> i_language interpreter"
  shows "accept_request request_id d current_user now = (Inl LanguageMismatch, d)"
  using assms
  by (simp add: accept_request_def LanguageMismatch_def HTTP_400_BAD_REQUEST_def)

theorem accept_language_mismatch_no_change_witness:
  "interpreter_by_login sample_db (u_id mandarin1_login) = Some mandarin1 \<and>
   i_availability_status mandarin1 = AVAILABLE \<and>
   request_by_id sample_db ''r2'' = Some R2 \<and>
   r_status R2 = PENDING \<and>
   r_language R2 \<noteq> i_language mandarin1 \<and>
   accept_request ''r2'' sample_db mandarin1_login 700 = (Inl LanguageMismatch, sample_db)"
proof -
  have h: "interpreter_by_login sample_db (u_id mandarin1_login) = Some mandarin1"
    by (simp add: interpreter_by_login_def sample_db_def mandarin1_login_def arabic1_def
        mandarin1_def)
  have a: "i_availability_status mandarin1 = AVAILABLE"
    by (simp add: mandarin1_def)
  have r: "request_by_id sample_db ''r2'' = Some R2"
    by (simp add: request_by_id_def sample_db_def R1_def R2_def new_InterpreterRequest_def)
  have p: "r_status R2 = PENDING"
    by (simp add: R2_def new_InterpreterRequest_def)
  have l: "r_language R2 \<noteq> i_language mandarin1"
    by (simp add: mandarin1_def R2_def new_InterpreterRequest_def arabic_body_def)
  from accept_language_mismatch_no_change [OF h a r p l, of 700] h a r p l
  show ?thesis by simp
qed

text \<open>
  C7. The pending queue for a language holds exactly the PENDING requests of that language,
  each as often as the table holds it, STAT requests first and within one urgency the
  oldest first; the handler answers an interpreter with the queue of the interpreter's
  language when every request's patient row exists. For a table made of R1 (not STAT,
  10:00), R2 (STAT, 10:05) and R3 (not STAT, 09:50), all Arabic and PENDING and stored in
  any order, the queue is R2, R3, R1.
\<close>

theorem pending_queue_contract:
  "mset (pending_requests_query d language) =
     filter_mset (\<lambda>r. r_language r = language \<and> r_status r = PENDING)
       (mset (interpreter_requests d))
   \<and> sorted_wrt queue_order (pending_requests_query d language)
   \<and> (interpreter_by_login d (u_id current_user) = Some interpreter \<and>
       (\<forall>r \<in> set (interpreter_requests d). patient_by_id d (r_patient_id r) \<noteq> None) \<longrightarrow>
      (\<exists>rows. get_pending_requests_for_interpreter d current_user = Inr rows \<and>
         map rd_request rows = pending_requests_query d (i_language interpreter)))
   \<and> (mset (interpreter_requests d) = {#r1, r2, r3#} \<and>
       r_language r1 = ''Arabic'' \<and> r_language r2 = ''Arabic'' \<and> r_language r3 = ''Arabic'' \<and>
       r_status r1 = PENDING \<and> r_status r2 = PENDING \<and> r_status r3 = PENDING \<and>
       \<not> r_is_stat r1 \<and> r_is_stat r2 \<and> \<not> r_is_stat r3 \<and>
       r_requested_at r1 = 600 \<and> r_requested_at r2 = 605 \<and> r_requested_at r3 = 590 \<longrightarrow>
      pending_requests_query d ''Arabic'' = [r2, r3, r1])"
  using mset_pending_requests_query [of d language]
    sorted_pending_requests_query [of d language]
    pending_handler_rows [of d current_user interpreter]
    queue_example [of d r1 r2 r3]
  by blast

theorem pending_queue_contract_witness:
  "interpreter_by_login sample_db (u_id arabic1_login) = Some arabic1 \<and>
   i_language arabic1 = ''Arabic'' \<and>
   interpreter_requests sample_db = [R1, R2, R3] \<and>
   pending_requests_query sample_db ''Arabic'' = [R2, R3, R1] \<and>
   sorted_wrt queue_order [R2, R3, R1] \<and>
   (\<exists>rows. get_pending_requests_for_interpreter sample_db arabic1_login = Inr rows \<and>
      map rd_request rows = [R2, R3, R1])"
proof -
  have h: "interpreter_by_login sample_db (u_id arabic1_login) = Some arabic1"
    by (simp add: interpreter_by_login_def sample_db_def arabic1_login_def arabic1_def)
  have la: "i_language arabic1 = ''Arabic''"
    by (simp add: arabic1_def)
  have rs: "interpreter_requests sample_db = [R1, R2, R3]"
    by (simp add: sample_db_def)
  have fk: "\<forall>r \<in> set (interpreter_requests sample_db).
              patient_by_id sample_db (r_patient_id r) \<noteq> None"
    by (simp add: sample_db_def patient_by_id_def patient2_def R1_def R2_def R3_def
        new_InterpreterRequest_def arabic_body_def)
  have ex: "mset (interpreter_requests sample_db) = {#R1, R2, R3#} \<and>
       r_language R1 = ''Arabic'' \<and> r_language R2 = ''Arabic'' \<and> r_language R3 = ''Arabic'' \<and>
       r_status R1 = PENDING \<and> r_status R2 = PENDING \<and> r_status R3 = PENDING \<and>
       \<not> r_is_stat R1 \<and> r_is_stat R2 \<and> \<not> r_is_stat R3 \<and>
       r_requested_at R1 = 600 \<and> r_requested_at R2 = 605 \<and> r_requested_at R3 = 590"
    by (simp add: sample_db_def R1_def R2_def R3_def new_InterpreterRequest_def arabic_body_def)
  note c = pending_queue_contract [of sample_db "''Arabic''" arabic1_login arabic1 R1 R2 R3]
  from c ex have q: "pending_requests_query sample_db ''Arabic'' = [R2, R3, R1]"
    by blast
  from c q have so: "sorted_wrt queue_order [R2, R3, R1]"
    by simp
  from c h fk la q
  have "\<exists>rows. get_pending_requests_for_interpreter sample_db arabic1_login = Inr rows \<and>
      map rd_request rows = [R2, R3, R1]"
    by simp
  with h la rs q so show ?thesis by blast
qed

text \<open>
  C8. Create Request for a patient that does not exist fails with the 404 ``Patient not
  found'' and stores nothing. For an existing patient and a fresh primary key it appends one
  request, which is PENDING, has no interpreter, and carries the creation time as
  \<open>requested_at\<close>.
\<close>

theorem create_request_contract:
  "(patient_by_id d (rc_patient_id request) = None \<longrightarrow>
      create_request request d current_user new_id now = (Inl PatientNotFound, d))
   \<and> (patient_by_id d (rc_patient_id request) \<noteq> None \<and>
       new_id \<notin> set (map r_id (interpreter_requests d)) \<longrightarrow>
      (\<exists>created. create_request request d current_user new_id now =
          (Inr created, d\<lparr>interpreter_requests := interpreter_requests d @ [created]\<rparr>) \<and>
         r_id created = new_id \<and>
         r_status created = PENDING \<and>
         r_interpreter_id created = None \<and>
         r_requested_at created = now \<and>
         r_patient_id created = rc_patient_id request \<and>
         r_language created = rc_language request \<and>
         r_is_stat created = rc_is_stat request))"
  by (auto simp: create_request_def insert_request_def new_InterpreterRequest_def
      PatientNotFound_def HTTP_404_NOT_FOUND_def)

theorem create_request_contract_witness:
  "patient_by_id empty_queue_db ''p9'' = None \<and>
   create_request ((arabic_body True)\<lparr>rc_patient_id := ''p9''\<rparr>) empty_queue_db staff1 ''r2'' 605 =
     (Inl PatientNotFound, empty_queue_db) \<and>
   patient_by_id empty_queue_db (rc_patient_id (arabic_body True)) = Some patient2 \<and>
   ''r2'' \<notin> set (map r_id (interpreter_requests empty_queue_db)) \<and>
   create_request (arabic_body True) empty_queue_db staff1 ''r2'' 605 =
     (Inr R2, empty_queue_db\<lparr>interpreter_requests := [R2]\<rparr>)"
proof -
  have n: "patient_by_id empty_queue_db (rc_patient_id ((arabic_body True)\<lparr>rc_patient_id := ''p9''\<rparr>)) = None"
    by (simp add: sample_defs handler_defs)
  have p: "patient_by_id empty_queue_db (rc_patient_id (arabic_body True)) = Some patient2"
    by (simp add: sample_defs handler_defs)
  have f: "''r2'' \<notin> set (map r_id (interpreter_requests empty_queue_db))"
    by (simp add: sample_defs)
  from create_request_contract
    [of empty_queue_db "(arabic_body True)\<lparr>rc_patient_id := ''p9''\<rparr>" staff1 "''r2''" 605] n
  have c1: "create_request ((arabic_body True)\<lparr>rc_patient_id := ''p9''\<rparr>) empty_queue_db staff1 ''r2'' 605 =
     (Inl PatientNotFound, empty_queue_db)"
    by blast
  from create_request_contract [of empty_queue_db "arabic_body True" staff1 "''r2''" 605] p f
  obtain created where
    "create_request (arabic_body True) empty_queue_db staff1 ''r2'' 605 =
       (Inr created, empty_queue_db\<lparr>interpreter_requests :=
          interpreter_requests empty_queue_db @ [created]\<rparr>)"
    by auto
  moreover have "create_request (arabic_body True) empty_queue_db staff1 ''r2'' 605 =
     (Inr R2, empty_queue_db\<lparr>interpreter_requests := [R2]\<rparr>)"
    using p by (simp add: create_request_def insert_request_def R2_def empty_queue_db_def)
  ultimately show ?thesis using n p f c1 by simp
qed

text \<open>
  C9. When a local patient with the given \<open>fhir_id\<close> exists, the sync returns that row,
  asks the directory nothing and leaves the store as it was. Hence a sync that has answered
  with a row for the identifier can be repeated on the store it left, whatever the
  directory then answers: the repeat returns the same row and changes nothing.
\<close>

theorem sync_patient_idempotent:
  "(patient_by_fhir_id d fhir_id = Some existing \<longrightarrow>
      sync_patient_from_fhir fhir_id d get_patient new_id = (Inr existing, d))
   \<and> (sync_patient_from_fhir fhir_id d get_patient new_id = (Inr patient, d') \<and>
       p_fhir_id patient = fhir_id \<longrightarrow>
      sync_patient_from_fhir fhir_id d' get_patient' new_id' = (Inr patient, d'))"
proof (intro conjI impI)
  assume "patient_by_fhir_id d fhir_id = Some existing"
  then show "sync_patient_from_fhir fhir_id d get_patient new_id = (Inr existing, d)"
    by (simp add: sync_patient_from_fhir_def)
next
  assume a: "sync_patient_from_fhir fhir_id d get_patient new_id = (Inr patient, d') \<and>
       p_fhir_id patient = fhir_id"
  have "patient_by_fhir_id d' fhir_id = Some patient"
  proof (cases "patient_by_fhir_id d fhir_id")
    case (Some existing)
    with a show ?thesis by (simp add: sync_patient_from_fhir_def)
  next
    case None
    then have no: "\<forall>p \<in> set (patient_data d). p_fhir_id p \<noteq> fhir_id"
      by (auto simp: patient_by_fhir_id_def find_None_iff)
    from a None have "d' = d\<lparr>patient_data := patient_data d @ [patient]\<rparr>"
      by (auto simp: sync_patient_from_fhir_def insert_patient_def Let_def
          split: option.splits if_splits)
    with a no show ?thesis
      by (simp add: patient_by_fhir_id_def find_append_new)
  qed
  then show "sync_patient_from_fhir fhir_id d' get_patient' new_id' = (Inr patient, d')"
    by (simp add: sync_patient_from_fhir_def)
qed

theorem sync_patient_idempotent_witness:
  "patient_by_fhir_id empty_queue_db ''patient-002'' = Some patient2 \<and>
   sync_patient_from_fhir ''patient-002'' empty_queue_db directory ''p7'' =
     (Inr patient2, empty_queue_db) \<and>
   sync_patient_from_fhir ''patient-003'' empty_queue_db directory ''p3'' =
     (Inr patient3, empty_queue_db\<lparr>patient_data := [patient2, patient3]\<rparr>) \<and>
   p_fhir_id patient3 = ''patient-003'' \<and>
   sync_patient_from_fhir ''patient-003''
       (empty_queue_db\<lparr>patient_data := [patient2, patient3]\<rparr>) (\<lambda>fid. None) ''p4'' =
     (Inr patient3, empty_queue_db\<lparr>patient_data := [patient2, patient3]\<rparr>)"
proof -
  let ?d' = "empty_queue_db\<lparr>patient_data := [patient2, patient3]\<rparr>"
  have e: "patient_by_fhir_id empty_queue_db ''patient-002'' = Some patient2"
    by (simp add: patient_by_fhir_id_def empty_queue_db_def patient2_def)
  from sync_patient_idempotent [of empty_queue_db "''patient-002''" patient2 directory "''p7''"] e
  have c1: "sync_patient_from_fhir ''patient-002'' empty_queue_db directory ''p7'' =
     (Inr patient2, empty_queue_db)"
    by blast
  have s: "sync_patient_from_fhir ''patient-003'' empty_queue_db directory ''p3'' =
      (Inr patient3, ?d')"
    by (simp add: sync_patient_from_fhir_def insert_patient_def patient_by_fhir_id_def
        empty_queue_db_def patient2_def patient3_def directory_def parsed_patient3_def Let_def)
  have f: "p_fhir_id patient3 = ''patient-003''"
    by (simp add: patient3_def)
  from sync_patient_idempotent
    [of empty_queue_db "''patient-003''" _ directory "''p3''" patient3 ?d' "\<lambda>fid. None" "''p4''"] s f
  have "sync_patient_from_fhir ''patient-003'' ?d' (\<lambda>fid. None) ''p4'' = (Inr patient3, ?d')"
    by blast
  with e c1 s f show ?thesis by blast
qed

text \<open>
  C10. Accept looks at the interpreter's availability before it looks the request up: when
  the caller's interpreter profile is not AVAILABLE the answer is NotAvailable for every
  request identity, whatever the request table holds, and the store is left as it was.
\<close>

theorem accept_request_not_available_first:
  assumes "interpreter_by_login d (u_id current_user) = Some interpreter"
    and "i_availability_status interpreter \<noteq> AVAILABLE"
  shows "accept_request request_id d current_user now = (Inl NotAvailable, d)"
  using assms
  by (simp add: accept_request_def NotAvailable_def HTTP_400_BAD_REQUEST_def)

theorem accept_request_not_available_first_witness:
  "interpreter_by_login (update_interpreter ''i1'' (set_availability BUSY) sample_db)
     (u_id arabic1_login) = Some (set_availability BUSY arabic1) \<and>
   i_availability_status (set_availability BUSY arabic1) \<noteq> AVAILABLE \<and>
   accept_request ''no-such-request''
     (update_interpreter ''i1'' (set_availability BUSY) sample_db) arabic1_login 700 =
   (Inl NotAvailable, update_interpreter ''i1'' (set_availability BUSY) sample_db)"
proof -
  have h: "interpreter_by_login (update_interpreter ''i1'' (set_availability BUSY) sample_db)
     (u_id arabic1_login) = Some (set_availability BUSY arabic1)"
    by (simp add: interpreter_by_login_def update_interpreter_def sample_db_def
        arabic1_login_def arabic1_def set_availability_def)
  have a: "i_availability_status (set_availability BUSY arabic1) \<noteq> AVAILABLE"
    by (simp add: set_availability_def)
  from accept_request_not_available_first [OF h a, of "''no-such-request''" 700] h a
  show ?thesis by simp
qed

end
